theory Spec2Isabelle
  imports Complex_Main
begin

section \<open>JavaScript objects as ordered property lists\<close>

text \<open>
  A plain JavaScript object is kept as the list of its own properties in enumeration
  order (the order of \<^verbatim>\<open>Object.keys\<close>). Reading a property finds its entry, writing one
  overwrites the entry where it stands or appends a new one, \<^verbatim>\<open>delete\<close> removes it.
  The player map and the avatar map are keyed by the ids and names the server sends;
  these are taken to be ordinary names (not an array index, not a name inherited from
  \<^verbatim>\<open>Object.prototype\<close>) and are read with \<open>obj_get\<close>. The two objects of the input
  controller are keyed by the \<^verbatim>\<open>key\<close> of a keyboard event, which can be any string; they are
  read with \<open>obj_read\<close> and written with \<open>obj_write\<close>, which follow the prototype chain.
\<close>

type_synonym 'v js_object = "(string \<times> 'v) list"

definition obj_get :: "'v js_object \<Rightarrow> string \<Rightarrow> 'v option" where
  "obj_get obj k = map_of obj k"

fun obj_set :: "string \<Rightarrow> 'v \<Rightarrow> 'v js_object \<Rightarrow> 'v js_object" where
  "obj_set k v [] = [(k, v)]"
| "obj_set k v ((k', v') # rest) =
     (if k' = k then (k, v) # rest else (k', v') # obj_set k v rest)"

definition obj_delete :: "string \<Rightarrow> 'v js_object \<Rightarrow> 'v js_object" where
  "obj_delete k obj = filter (\<lambda>kv. fst kv \<noteq> k) obj"

definition obj_keys :: "'v js_object \<Rightarrow> string list" where
  "obj_keys obj = map fst obj"

text \<open>
  \<^verbatim>\<open>Object.assign(target, source)\<close>: every own property of the source, in enumeration
  order, is written to the target.
\<close>

fun object_assign :: "'v js_object \<Rightarrow> 'v js_object \<Rightarrow> 'v js_object" where
  "object_assign target [] = target"
| "object_assign target ((k, v) # rest) = object_assign (obj_set k v target) rest"

text \<open>
  \<^verbatim>\<open>obj[k]\<close> on an object literal, whose prototype is \<^verbatim>\<open>Object.prototype\<close>: the own property
  if there is one, otherwise what the prototype holds under that name (a function, or
  for \<^verbatim>\<open>__proto__\<close> the prototype itself; in both cases an object, hence truthy and not a
  string), otherwise \<^verbatim>\<open>undefined\<close>.
\<close>

datatype 'v js_lookup = Undefined | Own 'v | Inherited

definition object_prototype_names :: "string list" where
  "object_prototype_names =
     [''constructor'', ''__defineGetter__'', ''__defineSetter__'', ''hasOwnProperty'',
      ''__lookupGetter__'', ''__lookupSetter__'', ''isPrototypeOf'', ''propertyIsEnumerable'',
      ''toString'', ''valueOf'', ''__proto__'', ''toLocaleString'']"

definition obj_read :: "'v js_object \<Rightarrow> string \<Rightarrow> 'v js_lookup" where
  "obj_read obj k =
     (case map_of obj k of
        Some v \<Rightarrow> Own v
      | None \<Rightarrow> if k \<in> set object_prototype_names then Inherited else Undefined)"

text \<open>
  \<^verbatim>\<open>obj[k] = v\<close> on an object literal, for a value \<open>v\<close> that is not an object (here a
  boolean): an own property is written or created, except that without an own property
  \<^verbatim>\<open>__proto__\<close> the assignment reaches the setter of \<^verbatim>\<open>Object.prototype\<close>, which ignores
  such a value.
\<close>

definition obj_write :: "string \<Rightarrow> 'v \<Rightarrow> 'v js_object \<Rightarrow> 'v js_object" where
  "obj_write k v obj =
     (if k = ''__proto__'' \<and> map_of obj k = None then obj else obj_set k v obj)"

section \<open>Data of the game client\<close>

text \<open>
  Coordinates and sizes are JavaScript numbers; they are taken as reals (world
  coordinates are integers and halves of integers far below \<open>2^53\<close>, where the
  arithmetic of \<^verbatim>\<open>centerViewportOnMyAvatar\<close> is exact). Time stamps of \<^verbatim>\<open>Date.now()\<close> are
  integers (milliseconds). Field names carry a prefix where the source's name is a
  single letter or a HOL name (\<open>p_x\<close> for \<^verbatim>\<open>player.x\<close>, \<open>vp_x\<close> for \<^verbatim>\<open>viewport.x\<close>).
\<close>

record player =
  p_id :: string
  p_username :: string
  p_x :: real
  p_y :: real
  p_facing :: string
  p_isMoving :: bool
  p_avatar :: string
  p_animationFrame :: nat

text \<open>
  A frame slot holds what the server sent (a string) or the \<^verbatim>\<open>Image\<close> object that
  \<^verbatim>\<open>preloadAvatarImages\<close> stored in its place. Image objects have an identity: the
  \<open>img_handle\<close> is the number of \<^verbatim>\<open>new Image()\<close> calls made before this one.
\<close>

record image =
  img_handle :: nat
  img_src :: string

datatype frame_slot = FrameString string | FrameImage image

record avatar =
  av_name :: string
  av_frames :: "frame_slot list js_object"

record viewport =
  vp_x :: real
  vp_y :: real
  vp_width :: real
  vp_height :: real

datatype direction = DirUp | DirDown | DirLeft | DirRight

datatype ready_state = CONNECTING | OPEN | CLOSING | CLOSED

text \<open>
  The objects handed, through \<^verbatim>\<open>JSON.stringify\<close>, to \<^verbatim>\<open>ws.send\<close>. A move message carries the
  value given as its \<^verbatim>\<open>direction\<close>: \<open>Own d\<close> is the string of the direction \<open>d\<close>; a value
  that is \<^verbatim>\<open>undefined\<close> or a function is left out of the JSON text.
\<close>

datatype out_message = JoinGameOut string | MoveOut "direction js_lookup" | StopOut

datatype log_entry =
    LogConnected
  | LogDisconnected
  | LogJoined
  | LogJoinFailed string
  | LogUnknownMessage string

record prediction =
  mp_enabled :: bool
  mp_lastUpdateTime :: int
  mp_predictedPosition :: "real \<times> real"
  mp_velocity :: "real \<times> real"

text \<open>
  The module-level variables of \<^verbatim>\<open>main.js\<close> that the message handler and the input
  controller read or write. \<open>ws = None\<close> is \<^verbatim>\<open>ws === null\<close>, otherwise the socket's
  \<^verbatim>\<open>readyState\<close>. \<open>movementInterval = None\<close> is \<^verbatim>\<open>null\<close>, \<open>Some ()\<close> a live interval
  handle (handles are positive numbers, hence truthy). \<open>sent\<close> lists the messages passed
  to \<^verbatim>\<open>ws.send\<close>, oldest first, \<open>console\<close> the lines written to the console, and
  \<open>imagesCreated\<close> counts the \<^verbatim>\<open>Image\<close> objects constructed so far.
\<close>

record game_state =
  myPlayerId :: "string option"
  players :: "player js_object"
  avatars :: "avatar js_object"
  viewport :: viewport
  ws :: "ready_state option"
  pressedKeys :: "bool js_object"
  movementInterval :: "unit option"
  lastMovementTime :: int
  movementPrediction :: prediction
  sent :: "out_message list"
  console :: "log_entry list"
  imagesCreated :: nat

definition init_state :: game_state where
  "init_state =
     \<lparr> myPlayerId = None, players = [], avatars = [],
       viewport = \<lparr> vp_x = 0, vp_y = 0, vp_width = 0, vp_height = 0 \<rparr>,
       ws = None, pressedKeys = [], movementInterval = None, lastMovementTime = 0,
       movementPrediction =
         \<lparr> mp_enabled = False, mp_lastUpdateTime = 0,
           mp_predictedPosition = (0, 0), mp_velocity = (0, 0) \<rparr>,
       sent = [], console = [], imagesCreated = 0 \<rparr>"

text \<open>The inbound messages, one constructor for each \<^verbatim>\<open>action\<close> the handler switches on.\<close>

datatype server_message =
    JoinGame bool "string option" "player js_object" "avatar js_object" string
  | PlayerJoined player "avatar option"
  | PlayersMoved "player js_object"
  | PlayerLeft string
  | UnknownAction string

section \<open>Input tracking tables\<close>

definition movementKeys_table :: "direction js_object" where
  "movementKeys_table =
     [(''ArrowUp'', DirUp), (''w'', DirUp), (''W'', DirUp),
      (''ArrowDown'', DirDown), (''s'', DirDown), (''S'', DirDown),
      (''ArrowLeft'', DirLeft), (''a'', DirLeft), (''A'', DirLeft),
      (''ArrowRight'', DirRight), (''d'', DirRight), (''D'', DirRight)]"

text \<open>
  \<^verbatim>\<open>movementKeys[key]\<close>. The test \<^verbatim>\<open>if (movementKeys[key])\<close> succeeds when the result is not
  \<open>Undefined\<close>: for the twelve keys of the table and for the names of \<^verbatim>\<open>Object.prototype\<close>.
\<close>

definition movementKeys :: "string \<Rightarrow> direction js_lookup" where
  "movementKeys key = obj_read movementKeys_table key"

definition MOVEMENT_INTERVAL :: int where
  "MOVEMENT_INTERVAL = 150"

definition POLL_INTERVAL :: int where
  "POLL_INTERVAL = 50"

text \<open>
  \<^verbatim>\<open>pressedKeys[k]\<close> as a condition: the boolean of the own property, true for a value
  inherited from the prototype, false for \<^verbatim>\<open>undefined\<close>.
\<close>

definition is_pressed :: "bool js_object \<Rightarrow> string \<Rightarrow> bool" where
  "is_pressed pk k = (case obj_read pk k of Own v \<Rightarrow> v | Inherited \<Rightarrow> True | Undefined \<Rightarrow> False)"

text \<open>\<^verbatim>\<open>Object.keys(pressedKeys).some(k => pressedKeys[k])\<close>\<close>

definition some_pressed :: "bool js_object \<Rightarrow> bool" where
  "some_pressed pk = list_ex (is_pressed pk) (obj_keys pk)"

text \<open>\<^verbatim>\<open>!gameState.myPlayerId\<close> fails for \<^verbatim>\<open>null\<close> and for the empty string.\<close>

fun truthy_id :: "string option \<Rightarrow> bool" where
  "truthy_id None = False"
| "truthy_id (Some i) = (i \<noteq> [])"

text \<open>A value used as a property name: \<^verbatim>\<open>null\<close> is converted to the name \<^verbatim>\<open>"null"\<close>.\<close>

fun property_name :: "string option \<Rightarrow> string" where
  "property_name None = ''null''"
| "property_name (Some i) = i"

section \<open>Viewport\<close>

definition worldWidth :: real where
  "worldWidth = 2048"

definition worldHeight :: real where
  "worldHeight = 2048"

definition centerViewportOnMyAvatar :: "game_state \<Rightarrow> game_state" where
  "centerViewportOnMyAvatar s =
     (if \<not> truthy_id (myPlayerId s) then s
      else case obj_get (players s) (property_name (myPlayerId s)) of
        None \<Rightarrow> s
      | Some myPlayer \<Rightarrow>
          let targetX = p_x myPlayer - vp_width (viewport s) / 2;
              targetY = p_y myPlayer - vp_height (viewport s) / 2;
              clampedX = max 0 (min targetX (worldWidth - vp_width (viewport s)));
              clampedY = max 0 (min targetY (worldHeight - vp_height (viewport s)))
          in s\<lparr> viewport := (viewport s)\<lparr> vp_x := clampedX, vp_y := clampedY \<rparr> \<rparr>)"

section \<open>Avatar frames\<close>

definition is_data_uri :: "string \<Rightarrow> bool" where
  "is_data_uri str = (take 5 str = ''data:'')"

text \<open>
  The body of the innermost \<^verbatim>\<open>forEach\<close>: a string that starts with \<^verbatim>\<open>data:\<close> is replaced,
  in its slot, by a new \<^verbatim>\<open>Image\<close> whose \<^verbatim>\<open>src\<close> is that string; any other slot is left
  alone. The number threaded through is \<open>imagesCreated\<close>.
\<close>

fun preload_slot :: "frame_slot \<Rightarrow> nat \<Rightarrow> frame_slot \<times> nat" where
  "preload_slot (FrameString base64Data) n =
     (if is_data_uri base64Data
      then (FrameImage \<lparr> img_handle = n, img_src = base64Data \<rparr>, Suc n)
      else (FrameString base64Data, n))"
| "preload_slot (FrameImage img) n = (FrameImage img, n)"

fun preload_frameArray :: "frame_slot list \<Rightarrow> nat \<Rightarrow> frame_slot list \<times> nat" where
  "preload_frameArray [] n = ([], n)"
| "preload_frameArray (slot # rest) n =
     (case preload_slot slot n of (slot', n') \<Rightarrow>
        (case preload_frameArray rest n' of (rest', n'') \<Rightarrow> (slot' # rest', n'')))"

fun preload_frames :: "frame_slot list js_object \<Rightarrow> nat \<Rightarrow> frame_slot list js_object \<times> nat" where
  "preload_frames [] n = ([], n)"
| "preload_frames ((dir, frameArray) # rest) n =
     (case preload_frameArray frameArray n of (frameArray', n') \<Rightarrow>
        (case preload_frames rest n' of (rest', n'') \<Rightarrow> ((dir, frameArray') # rest', n'')))"

fun preload_avatars :: "avatar js_object \<Rightarrow> nat \<Rightarrow> avatar js_object \<times> nat" where
  "preload_avatars [] n = ([], n)"
| "preload_avatars ((name, av) # rest) n =
     (case preload_frames (av_frames av) n of (frames', n') \<Rightarrow>
        (case preload_avatars rest n' of (rest', n'') \<Rightarrow>
           ((name, av\<lparr> av_frames := frames' \<rparr>) # rest', n'')))"

definition preloadAvatarImages :: "game_state \<Rightarrow> game_state" where
  "preloadAvatarImages s =
     (case preload_avatars (avatars s) (imagesCreated s) of
        (avatars', n') \<Rightarrow> s\<lparr> avatars := avatars', imagesCreated := n' \<rparr>)"

section \<open>Message handling\<close>

definition updateMovementPrediction :: "int \<Rightarrow> game_state \<Rightarrow> game_state" where
  "updateMovementPrediction now s =
     (if \<not> mp_enabled (movementPrediction s) \<or> \<not> truthy_id (myPlayerId s) then s
      else case obj_get (players s) (property_name (myPlayerId s)) of
        None \<Rightarrow> s
      | Some myPlayer \<Rightarrow>
          let mp = movementPrediction s;
              deltaTime = now - mp_lastUpdateTime mp;
              mp' = (if deltaTime > 0
                     then mp\<lparr> mp_velocity :=
                                ((p_x myPlayer - fst (mp_predictedPosition mp)) / of_int deltaTime,
                                 (p_y myPlayer - snd (mp_predictedPosition mp)) / of_int deltaTime),
                              mp_predictedPosition := (p_x myPlayer, p_y myPlayer) \<rparr>
                     else mp)
          in s\<lparr> movementPrediction := mp'\<lparr> mp_lastUpdateTime := now \<rparr> \<rparr>)"

text \<open>
  \<^verbatim>\<open>handleServerMessage\<close>; \<open>now\<close> is what \<^verbatim>\<open>Date.now()\<close> returns during the call.
\<close>

fun handleServerMessage :: "int \<Rightarrow> server_message \<Rightarrow> game_state \<Rightarrow> game_state" where
  "handleServerMessage now (JoinGame success playerId ps avs err) s =
     (if success
      then (let s1 = s\<lparr> myPlayerId := playerId, players := ps, avatars := avs \<rparr>;
                s2 = preloadAvatarImages s1;
                s3 = centerViewportOnMyAvatar s2
            in s3\<lparr> console := console s3 @ [LogJoined] \<rparr>)
      else s\<lparr> console := console s @ [LogJoinFailed err] \<rparr>)"
| "handleServerMessage now (PlayerJoined p av) s =
     (let s1 = s\<lparr> players := obj_set (p_id p) p (players s) \<rparr>
      in case av of
           None \<Rightarrow> s1
         | Some a \<Rightarrow> preloadAvatarImages (s1\<lparr> avatars := obj_set (av_name a) a (avatars s1) \<rparr>))"
| "handleServerMessage now (PlayersMoved ps) s =
     (let s1 = s\<lparr> players := object_assign (players s) ps \<rparr>;
          s2 = (if obj_get ps (property_name (myPlayerId s1)) \<noteq> None
                then (let isCurrentlyMoving = some_pressed (pressedKeys s1)
                      in if \<not> isCurrentlyMoving then centerViewportOnMyAvatar s1 else s1)
                else s1)
      in updateMovementPrediction now s2)"
| "handleServerMessage now (PlayerLeft playerId) s =
     s\<lparr> players := obj_delete playerId (players s) \<rparr>"
| "handleServerMessage now (UnknownAction a) s =
     s\<lparr> console := console s @ [LogUnknownMessage a] \<rparr>"

section \<open>Outbound commands and the input controller\<close>

definition sendMoveCommand :: "direction js_lookup \<Rightarrow> game_state \<Rightarrow> game_state" where
  "sendMoveCommand dir s =
     (if ws s \<noteq> Some OPEN then s else s\<lparr> sent := sent s @ [MoveOut dir] \<rparr>)"

definition sendStopCommand :: "game_state \<Rightarrow> game_state" where
  "sendStopCommand s =
     (if ws s \<noteq> Some OPEN then s else s\<lparr> sent := sent s @ [StopOut] \<rparr>)"

text \<open>\<^verbatim>\<open>directions[0]\<close>, which is \<^verbatim>\<open>undefined\<close> on an empty array.\<close>

fun first_element :: "'a js_lookup list \<Rightarrow> 'a js_lookup" where
  "first_element [] = Undefined"
| "first_element (x # _) = x"

text \<open>
  \<^verbatim>\<open>getPrimaryDirection\<close>; \<^verbatim>\<open>find\<close> gives \<^verbatim>\<open>undefined\<close> when no element passes the test.
\<close>

definition getPrimaryDirection :: "direction js_lookup list \<Rightarrow> direction js_lookup" where
  "getPrimaryDirection directions =
     (if Own DirLeft \<in> set directions \<or> Own DirRight \<in> set directions
      then (case find (\<lambda>d. d = Own DirLeft \<or> d = Own DirRight) directions of
              Some d \<Rightarrow> d
            | None \<Rightarrow> Undefined)
      else first_element directions)"

text \<open>
  The array \<^verbatim>\<open>directions\<close> that \<^verbatim>\<open>sendMovementCommand\<close> collects: for the keys of
  \<^verbatim>\<open>pressedKeys\<close> in enumeration order, \<^verbatim>\<open>movementKeys[key]\<close> is pushed when both
  \<^verbatim>\<open>pressedKeys[key]\<close> and \<^verbatim>\<open>movementKeys[key]\<close> are truthy.
\<close>

definition held_directions :: "bool js_object \<Rightarrow> direction js_lookup list" where
  "held_directions pk =
     concat (map (\<lambda>key. if is_pressed pk key \<and> movementKeys key \<noteq> Undefined
                         then [movementKeys key]
                         else [])
                 (obj_keys pk))"

definition sendMovementCommand :: "game_state \<Rightarrow> game_state" where
  "sendMovementCommand s =
     (if ws s \<noteq> Some OPEN then s
      else let directions = held_directions (pressedKeys s)
           in if length directions = 0 then s
              else if length directions > 1
                   then sendMoveCommand (getPrimaryDirection directions) s
                   else sendMoveCommand (first_element directions) s)"

text \<open>
  \<^verbatim>\<open>startMovementLoop\<close> at time \<open>now\<close>, and the callback it hands to \<^verbatim>\<open>setInterval\<close>
  (\<open>movement_tick\<close>), which the timer runs every \<open>POLL_INTERVAL\<close> milliseconds while
  the interval is live.
\<close>

definition startMovementLoop :: "int \<Rightarrow> game_state \<Rightarrow> game_state" where
  "startMovementLoop now s =
     (if movementInterval s \<noteq> None then s
      else (sendMovementCommand s)\<lparr> lastMovementTime := now, movementInterval := Some () \<rparr>)"

definition movement_tick :: "int \<Rightarrow> game_state \<Rightarrow> game_state" where
  "movement_tick now s =
     (if now - lastMovementTime s \<ge> MOVEMENT_INTERVAL
      then (sendMovementCommand s)\<lparr> lastMovementTime := now \<rparr>
      else s)"

definition stopMovementLoop :: "game_state \<Rightarrow> game_state" where
  "stopMovementLoop s =
     (if movementInterval s \<noteq> None then s\<lparr> movementInterval := None \<rparr> else s)"

definition keydown :: "string \<Rightarrow> int \<Rightarrow> game_state \<Rightarrow> game_state" where
  "keydown key now s =
     (if movementKeys key \<noteq> Undefined
      then (if \<not> is_pressed (pressedKeys s) key
            then startMovementLoop now (s\<lparr> pressedKeys := obj_write key True (pressedKeys s) \<rparr>)
            else s)
      else s)"

definition keyup :: "string \<Rightarrow> game_state \<Rightarrow> game_state" where
  "keyup key s =
     (if movementKeys key \<noteq> Undefined
      then (let s1 = s\<lparr> pressedKeys := obj_write key False (pressedKeys s) \<rparr>;
                hasMovementKeys = some_pressed (pressedKeys s1)
            in if \<not> hasMovementKeys then sendStopCommand (stopMovementLoop s1) else s1)
      else s)"

text \<open>
  \<^verbatim>\<open>setupCanvas\<close> for a window of the given inner size (drawing is not part of the
  state), \<^verbatim>\<open>connectToServer\<close>, and the socket's \<^verbatim>\<open>onopen\<close> and \<^verbatim>\<open>onclose\<close> handlers together
  with the change of \<^verbatim>\<open>readyState\<close> that runs them.
\<close>

definition setupCanvas :: "real \<Rightarrow> real \<Rightarrow> game_state \<Rightarrow> game_state" where
  "setupCanvas innerWidth innerHeight s =
     s\<lparr> viewport := (viewport s)\<lparr> vp_width := innerWidth, vp_height := innerHeight \<rparr> \<rparr>"

definition connectToServer :: "game_state \<Rightarrow> game_state" where
  "connectToServer s = s\<lparr> ws := Some CONNECTING \<rparr>"

definition ws_onopen :: "game_state \<Rightarrow> game_state" where
  "ws_onopen s =
     s\<lparr> ws := Some OPEN, console := console s @ [LogConnected],
        sent := sent s @ [JoinGameOut ''Tim''] \<rparr>"

definition ws_onclose :: "game_state \<Rightarrow> game_state" where
  "ws_onclose s = s\<lparr> ws := Some CLOSED, console := console s @ [LogDisconnected] \<rparr>"

text \<open>
  The events the browser delivers, each handled to completion before the next: the
  window taking a size, the socket being created, opening and closing, key events, a
  firing of the movement interval (which happens only while the interval is live), and
  an inbound message.
\<close>

datatype event =
    Resize real real
  | Connect
  | SocketOpen
  | SocketClose
  | KeyDown string int
  | KeyUp string
  | Tick int
  | Message server_message int

fun step :: "event \<Rightarrow> game_state \<Rightarrow> game_state" where
  "step (Resize w h) s = setupCanvas w h s"
| "step Connect s = connectToServer s"
| "step SocketOpen s = ws_onopen s"
| "step SocketClose s = ws_onclose s"
| "step (KeyDown key now) s = keydown key now s"
| "step (KeyUp key) s = keyup key s"
| "step (Tick now) s = (if movementInterval s = None then s else movement_tick now s)"
| "step (Message m now) s = handleServerMessage now m s"

definition run :: "event list \<Rightarrow> game_state \<Rightarrow> game_state" where
  "run es s = fold step es s"


definition count_stops :: "game_state \<Rightarrow> nat" where
  "count_stops s = length (filter (\<lambda>m. m = StopOut) (sent s))"


section \<open>Notions used to state the properties\<close>




text \<open>
  A viewport that is a sub-rectangle of the world: the origin is not negative and does
  not exceed the world extent minus the viewport extent.
\<close>

definition valid_viewport :: "viewport \<Rightarrow> bool" where
  "valid_viewport v =
     (0 \<le> vp_x v \<and> vp_x v \<le> worldWidth - vp_width v
      \<and> 0 \<le> vp_y v \<and> vp_y v \<le> worldHeight - vp_height v)"

text \<open>
  All frame slots of all avatars, in enumeration order, and what materialization may
  turn a slot into: a string that starts with \<^verbatim>\<open>data:\<close> becomes an image whose source is
  that string; any other string and any image stay what they are.
\<close>

definition frame_slots :: "avatar js_object \<Rightarrow> frame_slot list" where
  "frame_slots avs = concat (map (\<lambda>entry. concat (map snd (av_frames (snd entry)))) avs)"

fun materialized :: "frame_slot \<Rightarrow> frame_slot \<Rightarrow> bool" where
  "materialized (FrameString str) new =
     (if is_data_uri str
      then (case new of FrameImage img \<Rightarrow> img_src img = str | FrameString _ \<Rightarrow> False)
      else new = FrameString str)"
| "materialized (FrameImage img) new = (new = FrameImage img)"

text \<open>
  Concrete states, reached from \<open>init_state\<close> by events: a window of 800 by 600 with
  an open socket; the same after a successful join with three players, the local one at
  (1000, 1000); the connected client with \<^verbatim>\<open>w\<close> held, with \<^verbatim>\<open>w\<close> and \<^verbatim>\<open>a\<close> held, and with
  \<^verbatim>\<open>s\<close> and then \<^verbatim>\<open>w\<close> held; a client that joined at (2000, 2000) and whose window was then
  enlarged to 1600 by 1200. \<open>example_undecoded\<close> is the initial state with an avatar map
  whose frames are still strings.
\<close>

definition player_at :: "string \<Rightarrow> real \<Rightarrow> real \<Rightarrow> player" where
  "player_at i x y =
     \<lparr> p_id = i, p_username = ''Tim'', p_x = x, p_y = y, p_facing = ''south'',
       p_isMoving = False, p_avatar = ''knight'', p_animationFrame = 0 \<rparr>"

definition example_avatars :: "avatar js_object" where
  "example_avatars =
     [(''knight'',
       \<lparr> av_name = ''knight'',
         av_frames =
           [(''north'', [FrameString ''data:image/png;base64,AAAA'',
                         FrameString ''data:image/png;base64,BBBB'']),
            (''east'', [FrameString ''data:image/png;base64,CCCC''])] \<rparr>)]"

definition example_connected :: game_state where
  "example_connected = run [Resize 800 600, Connect, SocketOpen] init_state"

definition example_snapshot :: server_message where
  "example_snapshot =
     JoinGame True (Some ''p1'')
       [(''p1'', player_at ''p1'' 1000 1000), (''p2'', player_at ''p2'' 40 50),
        (''p3'', player_at ''p3'' 2000 300)]
       example_avatars ''''"

definition example_joined :: game_state where
  "example_joined = run [Message example_snapshot 900] example_connected"

definition example_holding_w :: game_state where
  "example_holding_w = run [KeyDown ''w'' 1000] example_connected"

definition example_holding_w_a :: game_state where
  "example_holding_w_a = run [KeyDown ''w'' 1000, KeyDown ''a'' 1010] example_connected"


definition example_resized :: game_state where
  "example_resized =
     run [Message (JoinGame True (Some ''p1'') [(''p1'', player_at ''p1'' 2000 2000)] [] '''') 900,
          Resize 1600 1200]
       example_connected"

definition example_undecoded :: game_state where
  "example_undecoded = init_state\<lparr> avatars := example_avatars \<rparr>"


section \<open>Evaluating the definitions\<close>

lemmas example_defs =
  example_connected_def example_joined_def example_snapshot_def example_avatars_def
  player_at_def init_state_def run_def setupCanvas_def connectToServer_def ws_onopen_def
  ws_onclose_def

lemmas input_defs =
  keydown_def keyup_def startMovementLoop_def stopMovementLoop_def movement_tick_def
  sendMovementCommand_def sendMoveCommand_def sendStopCommand_def held_directions_def
  getPrimaryDirection_def movementKeys_def movementKeys_table_def is_pressed_def
  some_pressed_def obj_get_def obj_keys_def obj_read_def obj_write_def
  object_prototype_names_def MOVEMENT_INTERVAL_def POLL_INTERVAL_def

lemma example_connected_eq:
  "example_connected =
     init_state\<lparr> viewport := \<lparr> vp_x = 0, vp_y = 0, vp_width = 800, vp_height = 600 \<rparr>,
       ws := Some OPEN, sent := [JoinGameOut ''Tim''], console := [LogConnected] \<rparr>"
  by (simp add: example_defs)

lemma example_joined_eq:
  "myPlayerId example_joined = Some ''p1''"
  "players example_joined = [(''p1'', player_at ''p1'' 1000 1000), (''p2'', player_at ''p2'' 40 50),
        (''p3'', player_at ''p3'' 2000 300)]"
  "viewport example_joined = \<lparr> vp_x = 600, vp_y = 700, vp_width = 800, vp_height = 600 \<rparr>"
  "pressedKeys example_joined = []"
  by (simp_all add: example_defs Let_def preloadAvatarImages_def centerViewportOnMyAvatar_def
        obj_get_def worldWidth_def worldHeight_def case_prod_beta)

lemma example_holding_w_eq:
  "example_holding_w =
     example_connected\<lparr> pressedKeys := [(''w'', True)], movementInterval := Some (),
       lastMovementTime := 1000, sent := [JoinGameOut ''Tim'', MoveOut (Own DirUp)] \<rparr>"
  by (simp add: example_holding_w_def run_def example_connected_eq init_state_def input_defs)

lemma example_holding_w_a_eq:
  "example_holding_w_a = example_holding_w\<lparr> pressedKeys := [(''w'', True), (''a'', True)] \<rparr>"
  by (simp add: example_holding_w_a_def example_holding_w_eq run_def example_connected_eq
        init_state_def input_defs)


lemma example_resized_eq:
  "viewport example_resized = \<lparr> vp_x = 1248, vp_y = 1448, vp_width = 1600, vp_height = 1200 \<rparr>"
  by (simp add: example_resized_def run_def example_connected_eq init_state_def setupCanvas_def
        Let_def preloadAvatarImages_def centerViewportOnMyAvatar_def obj_get_def player_at_def
        worldWidth_def worldHeight_def)

lemma unit_option_neq_Some [simp]: "((x::unit option) \<noteq> Some ()) = (x = None)"
  by (cases x) auto

section \<open>Objects\<close>

lemma obj_get_obj_set: "obj_get (obj_set k v obj) k' = (if k' = k then Some v else obj_get obj k')"
  by (induction obj) (auto simp: obj_get_def)

lemma obj_keys_obj_set: "set (obj_keys (obj_set k v obj)) = insert k (set (obj_keys obj))"
  by (induction obj) (force simp: obj_keys_def)+

lemma object_assign_other:
  "k \<notin> set (obj_keys src) \<Longrightarrow> obj_get (object_assign target src) k = obj_get target k"
  by (induction target src rule: object_assign.induct) (auto simp: obj_get_obj_set obj_keys_def)

lemma object_assign_present:
  "distinct (obj_keys src) \<Longrightarrow> obj_get src k = Some v \<Longrightarrow> obj_get (object_assign target src) k = Some v"
proof (induction target src rule: object_assign.induct)
  case (1 target)
  then show ?case by (simp add: obj_get_def)
next
  case (2 target k' v' rest)
  show ?case
  proof (cases "k' = k")
    case True
    with 2 have "v' = v" and "k \<notin> set (obj_keys rest)" by (auto simp: obj_get_def obj_keys_def)
    then show ?thesis using True by (simp add: object_assign_other obj_get_obj_set)
  next
    case False
    with 2 show ?thesis by (auto simp: obj_get_def obj_keys_def)
  qed
qed

section \<open>Merging moved players (C1)\<close>

lemma players_centerViewport [simp]: "players (centerViewportOnMyAvatar s) = players s"
  by (simp add: centerViewportOnMyAvatar_def Let_def split: option.splits)

lemma players_updateMovementPrediction [simp]: "players (updateMovementPrediction now s) = players s"
  by (simp add: updateMovementPrediction_def Let_def split: option.splits)

text \<open>
  Claim C1. The \<^verbatim>\<open>players_moved\<close> branch of \<^verbatim>\<open>handleServerMessage\<close> merges the partial
  map of the message into the player map entry by entry: an id that the update does not
  contain keeps its entry (or stays absent), and an id that the update contains gets the
  update's entry as a whole. The update is a JavaScript object, so its keys are distinct.
\<close>

theorem players_moved_shallow_merge:
  assumes "distinct (obj_keys upd)"
  shows "(k \<notin> set (obj_keys upd) \<longrightarrow>
            obj_get (players (handleServerMessage now (PlayersMoved upd) s)) k = obj_get (players s) k)
       \<and> (\<forall>p. obj_get upd k = Some p \<longrightarrow>
            obj_get (players (handleServerMessage now (PlayersMoved upd) s)) k = Some p)"
  using assms by (simp add: Let_def object_assign_other object_assign_present)

text \<open>
  The players \<^verbatim>\<open>p1\<close>, \<^verbatim>\<open>p2\<close>, \<^verbatim>\<open>p3\<close> and an update for \<^verbatim>\<open>p2\<close> alone: \<^verbatim>\<open>p1\<close> and \<^verbatim>\<open>p3\<close> are
  as before, \<^verbatim>\<open>p2\<close> is the update's entry.
\<close>

theorem players_moved_shallow_merge_witness:
  "obj_get (players (handleServerMessage 950 (PlayersMoved [(''p2'', player_at ''p2'' 44 50)]) example_joined)) ''p1''
     = Some (player_at ''p1'' 1000 1000)
 \<and> obj_get (players (handleServerMessage 950 (PlayersMoved [(''p2'', player_at ''p2'' 44 50)]) example_joined)) ''p2''
     = Some (player_at ''p2'' 44 50)
 \<and> obj_get (players (handleServerMessage 950 (PlayersMoved [(''p2'', player_at ''p2'' 44 50)]) example_joined)) ''p3''
     = Some (player_at ''p3'' 2000 300)"
proof -
  let ?upd = "[(''p2'', player_at ''p2'' 44 50)]"
  have d: "distinct (obj_keys ?upd)" by (simp add: obj_keys_def)
  show ?thesis
    using players_moved_shallow_merge [OF d, of "''p1''" 950 example_joined]
      players_moved_shallow_merge [OF d, of "''p2''" 950 example_joined]
      players_moved_shallow_merge [OF d, of "''p3''" 950 example_joined]
    by (simp add: obj_keys_def obj_get_def example_joined_eq)
qed

section \<open>The viewport within the world (C2)\<close>

lemma viewport_centerViewport_cong:
  assumes "myPlayerId s = myPlayerId s'" and "players s = players s'" and "viewport s = viewport s'"
  shows "viewport (centerViewportOnMyAvatar s) = viewport (centerViewportOnMyAvatar s')"
  using assms by (simp add: centerViewportOnMyAvatar_def Let_def split: option.splits)

lemma viewport_updateMovementPrediction [simp]:
  "viewport (updateMovementPrediction now s) = viewport s"
  by (simp add: updateMovementPrediction_def Let_def split: option.splits)

lemma preloadAvatarImages_fields [simp]:
  "myPlayerId (preloadAvatarImages s) = myPlayerId s"
  "players (preloadAvatarImages s) = players s"
  "viewport (preloadAvatarImages s) = viewport s"
  by (simp_all add: preloadAvatarImages_def case_prod_beta)

lemma centerViewport_origin:
  "0 \<le> vp_x (viewport s) \<Longrightarrow> 0 \<le> vp_x (viewport (centerViewportOnMyAvatar s))"
  "0 \<le> vp_y (viewport s) \<Longrightarrow> 0 \<le> vp_y (viewport (centerViewportOnMyAvatar s))"
  by (simp_all add: centerViewportOnMyAvatar_def Let_def split: option.splits)

lemma centerViewport_valid:
  assumes "vp_width (viewport s) \<le> worldWidth" and "vp_height (viewport s) \<le> worldHeight"
    and "truthy_id (myPlayerId s)"
    and "obj_get (players s) (property_name (myPlayerId s)) = Some myPlayer"
  shows "valid_viewport (viewport (centerViewportOnMyAvatar s))"
  using assms by (simp add: centerViewportOnMyAvatar_def Let_def valid_viewport_def)

lemma centerViewport_keeps_valid:
  assumes "valid_viewport (viewport s)"
  shows "valid_viewport (viewport (centerViewportOnMyAvatar s))"
proof (cases "truthy_id (myPlayerId s)")
  case False
  then show ?thesis using assms by (simp add: centerViewportOnMyAvatar_def)
next
  case True
  show ?thesis
  proof (cases "obj_get (players s) (property_name (myPlayerId s))")
    case None
    then show ?thesis using assms True by (simp add: centerViewportOnMyAvatar_def)
  next
    case (Some myPlayer)
    from assms have "vp_width (viewport s) \<le> worldWidth" "vp_height (viewport s) \<le> worldHeight"
      by (simp_all add: valid_viewport_def)
    then show ?thesis using True Some by (rule centerViewport_valid)
  qed
qed

text \<open>
  A message either leaves the viewport alone or recenters it in a state that has the
  viewport the message found.
\<close>

lemma viewport_handleServerMessage:
  "viewport (handleServerMessage now m s) = viewport s
   \<or> (\<exists>s'. viewport s' = viewport s
          \<and> viewport (handleServerMessage now m s) = viewport (centerViewportOnMyAvatar s'))"
proof (cases m)
  case (JoinGame success playerId ps avs err)
  show ?thesis
  proof (cases success)
    case True
    let ?s' = "preloadAvatarImages (s\<lparr> myPlayerId := playerId, players := ps, avatars := avs \<rparr>)"
    have "viewport ?s' = viewport s" by simp
    moreover have "viewport (handleServerMessage now m s) = viewport (centerViewportOnMyAvatar ?s')"
      using JoinGame True by (simp add: Let_def)
    ultimately show ?thesis by blast
  next
    case False
    then show ?thesis using JoinGame by simp
  qed
next
  case (PlayerJoined p av)
  then show ?thesis by (cases av) (simp_all add: Let_def)
next
  case (PlayersMoved ps)
  let ?s' = "s\<lparr> players := object_assign (players s) ps \<rparr>"
  have "viewport ?s' = viewport s" by simp
  moreover have "viewport (handleServerMessage now m s) = viewport s
      \<or> viewport (handleServerMessage now m s) = viewport (centerViewportOnMyAvatar ?s')"
    using PlayersMoved by (simp add: Let_def)
  ultimately show ?thesis by blast
next
  case (PlayerLeft i)
  then show ?thesis by simp
next
  case (UnknownAction a)
  then show ?thesis by simp
qed

lemma viewport_step_other:
  assumes "\<forall>w h. e \<noteq> Resize w h" and "\<forall>m now. e \<noteq> Message m now"
  shows "viewport (step e s) = viewport s"
proof -
  have a: "viewport (sendMovementCommand s') = viewport s'" for s'
    by (simp add: sendMovementCommand_def sendMoveCommand_def Let_def)
  show ?thesis
    using assms
    by (cases e)
       (simp_all add: connectToServer_def ws_onopen_def ws_onclose_def keydown_def keyup_def
          startMovementLoop_def stopMovementLoop_def sendStopCommand_def movement_tick_def
          Let_def a)
qed

lemma step_keeps_origin:
  assumes "0 \<le> vp_x (viewport s) \<and> 0 \<le> vp_y (viewport s)"
  shows "0 \<le> vp_x (viewport (step e s)) \<and> 0 \<le> vp_y (viewport (step e s))"
proof (cases "\<exists>m now. e = Message m now")
  case True
  then obtain m now where e: "e = Message m now" by blast
  from viewport_handleServerMessage [of now m s] show ?thesis
  proof
    assume "viewport (handleServerMessage now m s) = viewport s"
    then show ?thesis using assms e by simp
  next
    assume "\<exists>s'. viewport s' = viewport s
          \<and> viewport (handleServerMessage now m s) = viewport (centerViewportOnMyAvatar s')"
    then obtain s' where s': "viewport s' = viewport s"
      "viewport (handleServerMessage now m s) = viewport (centerViewportOnMyAvatar s')" by blast
    then show ?thesis
      using assms e centerViewport_origin [of s'] by simp
  qed
next
  case False
  show ?thesis
  proof (cases "\<exists>w h. e = Resize w h")
    case True
    then show ?thesis using assms by (auto simp: setupCanvas_def)
  next
    case nr: False
    then show ?thesis using assms False viewport_step_other [of e s] by simp
  qed
qed

lemma run_keeps_origin:
  "0 \<le> vp_x (viewport s) \<and> 0 \<le> vp_y (viewport s) \<Longrightarrow>
   0 \<le> vp_x (viewport (run es s)) \<and> 0 \<le> vp_y (viewport (run es s))"
proof (induction es arbitrary: s)
  case Nil
  then show ?case by (simp add: run_def)
next
  case (Cons e es)
  have "run (e # es) s = run es (step e s)" by (simp add: run_def)
  then show ?case using Cons.IH [OF step_keeps_origin [OF Cons.prems]] by simp
qed

lemma step_keeps_valid:
  assumes "valid_viewport (viewport s)" and "\<forall>w h. e \<noteq> Resize w h"
  shows "valid_viewport (viewport (step e s))"
proof (cases "\<exists>m now. e = Message m now")
  case True
  then obtain m now where e: "e = Message m now" by blast
  from viewport_handleServerMessage [of now m s] show ?thesis
  proof
    assume "viewport (handleServerMessage now m s) = viewport s"
    then show ?thesis using assms e by simp
  next
    assume "\<exists>s'. viewport s' = viewport s
          \<and> viewport (handleServerMessage now m s) = viewport (centerViewportOnMyAvatar s')"
    then obtain s' where s': "viewport s' = viewport s"
      "viewport (handleServerMessage now m s) = viewport (centerViewportOnMyAvatar s')" by blast
    then show ?thesis
      using assms e centerViewport_keeps_valid [of s'] by simp
  qed
next
  case False
  then show ?thesis using assms viewport_step_other [of e s] by simp
qed

text \<open>
  Claim C2, amended. When the local player exists and the viewport is no larger than the
  world (2048 by 2048), \<^verbatim>\<open>centerViewportOnMyAvatar\<close> leaves the viewport a sub-rectangle of
  the world, wherever the player stands: the origin lies between 0 and the world extent
  minus the viewport extent on both axes. In every state the client reaches, the origin
  is not negative. Every event other than a resize of the window keeps a viewport that
  is a sub-rectangle of the world one; \<^verbatim>\<open>setupCanvas\<close> changes the size and does not
  recenter.
\<close>

theorem centerViewport_clamped:
  "(truthy_id (myPlayerId s)
      \<and> obj_get (players s) (property_name (myPlayerId s)) = Some myPlayer
      \<and> vp_width (viewport s) \<le> worldWidth \<and> vp_height (viewport s) \<le> worldHeight \<longrightarrow>
        0 \<le> vp_x (viewport (centerViewportOnMyAvatar s))
      \<and> vp_x (viewport (centerViewportOnMyAvatar s))
           \<le> worldWidth - vp_width (viewport (centerViewportOnMyAvatar s))
      \<and> 0 \<le> vp_y (viewport (centerViewportOnMyAvatar s))
      \<and> vp_y (viewport (centerViewportOnMyAvatar s))
           \<le> worldHeight - vp_height (viewport (centerViewportOnMyAvatar s)))
 \<and> 0 \<le> vp_x (viewport (run es init_state)) \<and> 0 \<le> vp_y (viewport (run es init_state))
 \<and> (valid_viewport (viewport s') \<and> (\<forall>w h. e \<noteq> Resize w h) \<longrightarrow>
       valid_viewport (viewport (step e s')))"
proof -
  have "0 \<le> vp_x (viewport init_state) \<and> 0 \<le> vp_y (viewport init_state)"
    by (simp add: init_state_def)
  from run_keeps_origin [OF this, of es] step_keeps_valid [of s' e]
    centerViewport_valid [of s myPlayer]
  show ?thesis by (auto simp: valid_viewport_def)
qed

text \<open>
  The local player at (1000, 1000) in a window of 800 by 600: the origin is (600, 700),
  a sub-rectangle of the world, and stays so when another player moves.
\<close>

theorem centerViewport_clamped_witness:
  "vp_x (viewport (centerViewportOnMyAvatar example_joined)) = 600
 \<and> vp_y (viewport (centerViewportOnMyAvatar example_joined)) = 700
 \<and> 0 \<le> vp_x (viewport (centerViewportOnMyAvatar example_joined))
 \<and> vp_x (viewport (centerViewportOnMyAvatar example_joined))
      \<le> worldWidth - vp_width (viewport (centerViewportOnMyAvatar example_joined))
 \<and> 0 \<le> vp_y (viewport (centerViewportOnMyAvatar example_joined))
 \<and> vp_y (viewport (centerViewportOnMyAvatar example_joined))
      \<le> worldHeight - vp_height (viewport (centerViewportOnMyAvatar example_joined))
 \<and> valid_viewport (viewport example_joined)
 \<and> valid_viewport (viewport (step (Message (PlayersMoved [(''p2'', player_at ''p2'' 44 50)]) 950)
      example_joined))"
proof -
  have a: "truthy_id (myPlayerId example_joined)" by (simp add: example_joined_eq)
  have b: "obj_get (players example_joined) (property_name (myPlayerId example_joined))
             = Some (player_at ''p1'' 1000 1000)"
    by (simp add: example_joined_eq obj_get_def)
  have c: "vp_width (viewport example_joined) \<le> worldWidth"
    by (simp add: example_joined_eq worldWidth_def)
  have d: "vp_height (viewport example_joined) \<le> worldHeight"
    by (simp add: example_joined_eq worldHeight_def)
  have e: "vp_x (viewport (centerViewportOnMyAvatar example_joined)) = 600
         \<and> vp_y (viewport (centerViewportOnMyAvatar example_joined)) = 700"
    by (simp add: centerViewportOnMyAvatar_def example_joined_eq obj_get_def player_at_def
          worldWidth_def worldHeight_def)
  have f: "valid_viewport (viewport example_joined)"
    by (simp add: example_joined_eq valid_viewport_def worldWidth_def worldHeight_def)
  have g: "\<forall>w h. Message (PlayersMoved [(''p2'', player_at ''p2'' 44 50)]) 950 \<noteq> Resize w h"
    by simp
  show ?thesis
    using centerViewport_clamped [of example_joined "player_at ''p1'' 1000 1000" "[]"
        example_joined "Message (PlayersMoved [(''p2'', player_at ''p2'' 44 50)]) 950"]
      a b c d e f g
    by simp
qed

text \<open>
  The claim as it is written has the viewport a sub-rectangle of the world always. A
  client that joined at (2000, 2000) in a window of 800 by 600 has the origin
  (1248, 1448); when the window grows to 1600 by 1200, still smaller than the world, the
  origin stays where it was, beyond 2048 - 1600 and 2048 - 1200.
\<close>

theorem centerViewport_clamped_counterexample:
  "viewport example_resized = \<lparr> vp_x = 1248, vp_y = 1448, vp_width = 1600, vp_height = 1200 \<rparr>
 \<and> vp_width (viewport example_resized) \<le> worldWidth
 \<and> vp_height (viewport example_resized) \<le> worldHeight
 \<and> \<not> vp_x (viewport example_resized) \<le> worldWidth - vp_width (viewport example_resized)
 \<and> \<not> vp_y (viewport example_resized) \<le> worldHeight - vp_height (viewport example_resized)"
  by (simp add: example_resized_eq worldWidth_def worldHeight_def)

section \<open>Outbound commands\<close>

lemma map_of_obj_set: "map_of (obj_set k v obj) k' = (if k' = k then Some v else map_of obj k')"
  using obj_get_obj_set [of k v obj k'] by (simp add: obj_get_def)

lemma map_of_in_keys: "map_of obj k = Some v \<Longrightarrow> k \<in> set (obj_keys obj)"
  by (force simp: obj_keys_def dest: map_of_SomeD)


lemma is_pressed_own: "map_of pk k = Some v \<Longrightarrow> is_pressed pk k = v"
  by (simp add: is_pressed_def obj_read_def)

lemma is_pressed_of_key: "k \<in> set (obj_keys pk) \<Longrightarrow> is_pressed pk k = (map_of pk k = Some True)"
proof -
  assume "k \<in> set (obj_keys pk)"
  then obtain v where "map_of pk k = Some v"
    by (metis obj_keys_def map_of_eq_None_iff not_None_eq set_map)
  then show ?thesis by (simp add: is_pressed_own)
qed

lemma some_pressed_iff: "some_pressed pk = (\<exists>k. map_of pk k = Some True)"
proof
  assume "some_pressed pk"
  then obtain k where "k \<in> set (obj_keys pk)" "is_pressed pk k"
    by (auto simp: some_pressed_def list_ex_iff)
  then show "\<exists>k. map_of pk k = Some True" by (auto simp: is_pressed_of_key)
next
  assume "\<exists>k. map_of pk k = Some True"
  then obtain k where k: "map_of pk k = Some True" ..
  then have "k \<in> set (obj_keys pk)" "is_pressed pk k"
    by (simp_all add: map_of_in_keys is_pressed_own)
  then show "some_pressed pk" by (auto simp: some_pressed_def list_ex_iff)
qed


lemma map_of_obj_write:
  "map_of (obj_write k v pk) k' =
     (if k' = k \<and> \<not> (k = ''__proto__'' \<and> map_of pk k = None) then Some v else map_of pk k')"
  by (auto simp: obj_write_def map_of_obj_set)




lemma sendMovementCommand_cases:
  "sendMovementCommand s = s \<or> (\<exists>d. sendMovementCommand s = s\<lparr> sent := sent s @ [MoveOut d] \<rparr>)"
  by (auto simp: sendMovementCommand_def sendMoveCommand_def Let_def)


lemma sendMovementCommand_fields [simp]:
  "pressedKeys (sendMovementCommand s) = pressedKeys s"
  "ws (sendMovementCommand s) = ws s"
  "movementInterval (sendMovementCommand s) = movementInterval s"
  "lastMovementTime (sendMovementCommand s) = lastMovementTime s"
  using sendMovementCommand_cases [of s] by auto

lemma count_stops_sendMovementCommand [simp]:
  "count_stops (sendMovementCommand s) = count_stops s"
  using sendMovementCommand_cases [of s] by (auto simp: count_stops_def)

lemma stops_sendMovementCommand:
  "filter (\<lambda>m. m = StopOut) (sent (sendMovementCommand s)) = filter (\<lambda>m. m = StopOut) (sent s)"
  using sendMovementCommand_cases [of s] by auto




lemma handleServerMessage_input [simp]:
  "pressedKeys (handleServerMessage now m s) = pressedKeys s"
  "sent (handleServerMessage now m s) = sent s"
  "movementInterval (handleServerMessage now m s) = movementInterval s"
  "ws (handleServerMessage now m s) = ws s"
  by (cases m; simp add: Let_def preloadAvatarImages_def centerViewportOnMyAvatar_def
        updateMovementPrediction_def case_prod_beta split: option.splits)+

subsection \<open>Sending while disconnected (C10)\<close>

text \<open>
  Claim C10. When the socket is \<^verbatim>\<open>null\<close> or not in the state \<^verbatim>\<open>OPEN\<close>, \<^verbatim>\<open>sendMoveCommand\<close>,
  \<^verbatim>\<open>sendStopCommand\<close> and \<^verbatim>\<open>sendMovementCommand\<close> return the state they were given: nothing
  is sent, nothing else changes, and no branch of them raises an error.
\<close>

theorem send_while_disconnected:
  assumes "ws s \<noteq> Some OPEN"
  shows "sendMoveCommand dir s = s \<and> sendStopCommand s = s \<and> sendMovementCommand s = s"
  using assms by (simp add: sendMoveCommand_def sendStopCommand_def sendMovementCommand_def)

text \<open>
  Before \<^verbatim>\<open>connectToServer\<close> has run the socket is \<^verbatim>\<open>null\<close>.
\<close>

theorem send_while_disconnected_witness:
  "ws init_state \<noteq> Some OPEN
 \<and> sendMoveCommand (Own DirLeft) init_state = init_state
 \<and> sendStopCommand init_state = init_state
 \<and> sendMovementCommand init_state = init_state"
proof -
  have a: "ws init_state \<noteq> Some OPEN" by (simp add: init_state_def)
  show ?thesis using send_while_disconnected [OF a, of "Own DirLeft"] a by simp
qed

subsection \<open>Resolving the direction (C5)\<close>










text \<open>
  A released key keeps its entry in \<^verbatim>\<open>pressedKeys\<close> and its place in the enumeration
  order, and no longer steers: after \<^verbatim>\<open>a\<close> was pressed and released, \<^verbatim>\<open>w\<close> alone moves up;
  after \<^verbatim>\<open>s\<close> was pressed and released, holding \<^verbatim>\<open>w\<close> and then \<^verbatim>\<open>s\<close> moves down.
\<close>

lemma released_key_does_not_steer:
  "sent (run [KeyDown ''a'' 1000, KeyUp ''a'', KeyDown ''w'' 2000] example_connected)
     = [JoinGameOut ''Tim'', MoveOut (Own DirLeft), StopOut, MoveOut (Own DirUp)]"
  by (simp add: run_def example_connected_eq init_state_def input_defs)

lemma fallback_follows_first_press:
  "pressedKeys (run [KeyDown ''s'' 1000, KeyUp ''s'', KeyDown ''w'' 2000, KeyDown ''s'' 2010] example_connected)
     = [(''s'', True), (''w'', True)]
 \<and> last (sent (run [KeyDown ''s'' 1000, KeyUp ''s'', KeyDown ''w'' 2000, KeyDown ''s'' 2010, Tick 2150]
      example_connected)) = MoveOut (Own DirDown)"
  by (simp add: run_def example_connected_eq init_state_def input_defs)

section \<open>The movement loop\<close>
















subsection \<open>Throttling (C3)\<close>




subsection \<open>Stopping (C4)\<close>

lemma keydown_fields:
  "ws (keydown key now s) = ws s"
  "count_stops (keydown key now s) = count_stops s"
  by (simp_all add: keydown_def startMovementLoop_def count_stops_def stops_sendMovementCommand)

lemma keydown_keeps_pressed:
  "map_of (pressedKeys s) k = Some True \<Longrightarrow> map_of (pressedKeys (keydown key now s)) k = Some True"
  by (simp add: keydown_def startMovementLoop_def map_of_obj_write)

lemma keyup_mapped:
  assumes "movementKeys key \<noteq> Undefined"
  shows "pressedKeys (keyup key s) = obj_write key False (pressedKeys s)"
    and "sent (keyup key s) =
           (if some_pressed (obj_write key False (pressedKeys s)) then sent s
            else sent s @ (if ws s = Some OPEN then [StopOut] else []))"
    and "movementInterval (keyup key s) =
           (if some_pressed (obj_write key False (pressedKeys s)) then movementInterval s else None)"
  using assms by (simp_all add: keyup_def Let_def sendStopCommand_def stopMovementLoop_def)

lemma step_other_events:
  assumes "\<forall>key. e \<noteq> KeyUp key"
  shows "map_of (pressedKeys s) k = Some True \<Longrightarrow> map_of (pressedKeys (step e s)) k = Some True"
    and "count_stops (step e s) = count_stops s"
proof -
  show "map_of (pressedKeys s) k = Some True \<Longrightarrow> map_of (pressedKeys (step e s)) k = Some True"
    using assms
    by (cases e)
       (simp_all add: setupCanvas_def connectToServer_def ws_onopen_def ws_onclose_def
          keydown_keeps_pressed movement_tick_def)
  show "count_stops (step e s) = count_stops s"
    using assms
    by (cases e)
       (simp_all add: setupCanvas_def connectToServer_def ws_onopen_def ws_onclose_def
          keydown_fields movement_tick_def,
        simp_all add: count_stops_def stops_sendMovementCommand)
qed

text \<open>
  Claim C4, amended. For every event: when a key was held before it and none is held
  after it, the movement interval is cancelled and the messages sent grow by exactly one
  stop message if the socket is open, and by nothing if it is not; and when a key is
  held after the event, the event has sent no stop message.
\<close>

theorem stop_on_idle_transition:
  "(some_pressed (pressedKeys s) \<and> \<not> some_pressed (pressedKeys (step e s)) \<longrightarrow>
       sent (step e s) = sent s @ (if ws s = Some OPEN then [StopOut] else [])
     \<and> movementInterval (step e s) = None)
 \<and> (some_pressed (pressedKeys (step e s)) \<longrightarrow> count_stops (step e s) = count_stops s)"
proof (cases "\<exists>key. e = KeyUp key")
  case False
  then have ne: "\<forall>key. e \<noteq> KeyUp key" by simp
  show ?thesis
    using step_other_events [OF ne, of s] by (auto simp: some_pressed_iff)
next
  case True
  then obtain key where e: "e = KeyUp key" ..
  show ?thesis
  proof (cases "movementKeys key = Undefined")
    case True
    then show ?thesis using e by (simp add: keyup_def)
  next
    case False
    show ?thesis
      using keyup_mapped [OF False, of s] e by (simp add: count_stops_def)
  qed
qed

text \<open>
  Releasing \<^verbatim>\<open>w\<close>, the only key held, on the connected client sends one stop message and
  cancels the interval; releasing it while \<^verbatim>\<open>a\<close> is held too sends no stop message.
\<close>

theorem stop_on_idle_transition_witness:
  "some_pressed (pressedKeys example_holding_w)
 \<and> \<not> some_pressed (pressedKeys (step (KeyUp ''w'') example_holding_w))
 \<and> sent (step (KeyUp ''w'') example_holding_w) = sent example_holding_w @ [StopOut]
 \<and> movementInterval (step (KeyUp ''w'') example_holding_w) = None
 \<and> count_stops (step (KeyUp ''w'') example_holding_w_a) = count_stops example_holding_w_a"
proof -
  have a: "some_pressed (pressedKeys example_holding_w)"
    by (simp add: example_holding_w_eq some_pressed_def obj_keys_def is_pressed_def obj_read_def)
  have b: "\<not> some_pressed (pressedKeys (step (KeyUp ''w'') example_holding_w))"
    by (simp add: example_holding_w_eq example_connected_eq init_state_def input_defs)
  have c: "ws example_holding_w = Some OPEN"
    by (simp add: example_holding_w_eq example_connected_eq)
  have d: "some_pressed (pressedKeys (step (KeyUp ''w'') example_holding_w_a))"
    by (simp add: example_holding_w_a_eq example_holding_w_eq example_connected_eq
          init_state_def input_defs)
  show ?thesis
    using stop_on_idle_transition [of example_holding_w "KeyUp ''w''"]
      stop_on_idle_transition [of example_holding_w_a "KeyUp ''w''"] a b c d
    by simp
qed

text \<open>
  The claim as it is written promises the stop message on every such transition. A key
  pressed and released before the socket exists goes from held to not held, and no stop
  message is sent.
\<close>

theorem stop_on_idle_transition_counterexample:
  "some_pressed (pressedKeys (run [KeyDown ''w'' 1000] init_state))
 \<and> \<not> some_pressed (pressedKeys (run [KeyDown ''w'' 1000, KeyUp ''w''] init_state))
 \<and> sent (run [KeyDown ''w'' 1000, KeyUp ''w''] init_state) = []"
  by (simp add: run_def init_state_def input_defs)

subsection \<open>Releasing a key that is not held (C6)\<close>




text \<open>
  A name of \<^verbatim>\<open>Object.prototype\<close> passes the test \<^verbatim>\<open>if (movementKeys[key])\<close>: releasing a key
  reported as \<^verbatim>\<open>constructor\<close> records it in \<^verbatim>\<open>pressedKeys\<close> and, with no key held, sends a
  stop message; pressing it before that changes nothing, since \<^verbatim>\<open>pressedKeys[key]\<close> is
  then the inherited function.
\<close>

lemma inherited_name_is_mapped:
  "keydown ''constructor'' 1000 example_connected = example_connected
 \<and> pressedKeys (keyup ''constructor'' example_connected) = [(''constructor'', False)]
 \<and> sent (keyup ''constructor'' example_connected) = sent example_connected @ [StopOut]"
  by (simp add: example_connected_eq init_state_def input_defs)

section \<open>Recentering on inbound messages (C7)\<close>

text \<open>
  Claim C7, amended. A \<^verbatim>\<open>players_moved\<close> update that contains the local player recenters
  the viewport on the merged player map when no movement key is held, and leaves the
  viewport alone when one is held; an update without the local player leaves the
  viewport alone. A successful \<^verbatim>\<open>join_game\<close> recenters on the snapshot whether or not a key
  is held. No other message changes the viewport.
\<close>

theorem viewport_recentering:
  "(obj_get upd (property_name (myPlayerId s)) \<noteq> None \<and> \<not> some_pressed (pressedKeys s) \<longrightarrow>
      viewport (handleServerMessage now (PlayersMoved upd) s)
        = viewport (centerViewportOnMyAvatar (s\<lparr> players := object_assign (players s) upd \<rparr>)))
 \<and> (some_pressed (pressedKeys s) \<longrightarrow>
      viewport (handleServerMessage now (PlayersMoved upd) s) = viewport s)
 \<and> (obj_get upd (property_name (myPlayerId s)) = None \<longrightarrow>
      viewport (handleServerMessage now (PlayersMoved upd) s) = viewport s)
 \<and> viewport (handleServerMessage now (JoinGame True playerId ps avs err) s)
      = viewport (centerViewportOnMyAvatar (s\<lparr> myPlayerId := playerId, players := ps \<rparr>))
 \<and> viewport (handleServerMessage now (JoinGame False playerId ps avs err) s) = viewport s
 \<and> viewport (handleServerMessage now (PlayerJoined p av) s) = viewport s
 \<and> viewport (handleServerMessage now (PlayerLeft i) s) = viewport s
 \<and> viewport (handleServerMessage now (UnknownAction a) s) = viewport s"
proof -
  have join: "viewport (handleServerMessage now (JoinGame True playerId ps avs err) s)
      = viewport (centerViewportOnMyAvatar (s\<lparr> myPlayerId := playerId, players := ps \<rparr>))"
    by (simp add: Let_def) (rule viewport_centerViewport_cong; simp)
  have joined: "viewport (handleServerMessage now (PlayerJoined p av) s) = viewport s"
    by (cases av) (simp_all add: Let_def)
  show ?thesis
    using join joined by (simp add: Let_def)
qed

text \<open>
  After the join, an update that moves the local player to (1010, 1000) moves the
  origin to (610, 700), and an update for \<^verbatim>\<open>p2\<close> alone leaves the viewport as it is.
\<close>

theorem viewport_recentering_witness:
  "viewport example_joined = \<lparr> vp_x = 600, vp_y = 700, vp_width = 800, vp_height = 600 \<rparr>
 \<and> viewport (handleServerMessage 950 (PlayersMoved [(''p1'', player_at ''p1'' 1010 1000)]) example_joined)
      = \<lparr> vp_x = 610, vp_y = 700, vp_width = 800, vp_height = 600 \<rparr>
 \<and> viewport (handleServerMessage 950 (PlayersMoved [(''p2'', player_at ''p2'' 44 50)]) example_joined)
      = viewport example_joined"
proof -
  have a: "obj_get [(''p1'', player_at ''p1'' 1010 1000)] (property_name (myPlayerId example_joined)) \<noteq> None"
    by (simp add: example_joined_eq obj_get_def)
  have b: "\<not> some_pressed (pressedKeys example_joined)"
    by (simp add: example_joined_eq some_pressed_def obj_keys_def)
  have c: "obj_get [(''p2'', player_at ''p2'' 44 50)] (property_name (myPlayerId example_joined)) = None"
    by (simp add: example_joined_eq obj_get_def)
  have d: "viewport (centerViewportOnMyAvatar
             (example_joined\<lparr> players := object_assign (players example_joined)
                 [(''p1'', player_at ''p1'' 1010 1000)] \<rparr>))
           = \<lparr> vp_x = 610, vp_y = 700, vp_width = 800, vp_height = 600 \<rparr>"
    by (simp add: centerViewportOnMyAvatar_def example_joined_eq obj_get_def player_at_def
          worldWidth_def worldHeight_def)
  show ?thesis
    using viewport_recentering [of "[(''p1'', player_at ''p1'' 1010 1000)]" example_joined 950]
      viewport_recentering [of "[(''p2'', player_at ''p2'' 44 50)]" example_joined 950]
      a b c d
    by (simp add: example_joined_eq)
qed

text \<open>
  The claim as it is written suppresses recentering whenever a movement key is held.
  With \<^verbatim>\<open>w\<close> held since before the join, the snapshot puts the local player at
  (1000, 1000) and the viewport origin moves from (0, 0) to (600, 700).
\<close>

theorem viewport_recentering_counterexample:
  "some_pressed (pressedKeys (run [KeyDown ''w'' 800] example_connected))
 \<and> viewport (run [KeyDown ''w'' 800] example_connected)
      = \<lparr> vp_x = 0, vp_y = 0, vp_width = 800, vp_height = 600 \<rparr>
 \<and> viewport (run [KeyDown ''w'' 800, Message example_snapshot 900] example_connected)
      = \<lparr> vp_x = 600, vp_y = 700, vp_width = 800, vp_height = 600 \<rparr>"
  by (simp add: run_def example_connected_eq init_state_def input_defs example_snapshot_def
        example_avatars_def player_at_def Let_def preloadAvatarImages_def
        centerViewportOnMyAvatar_def worldWidth_def worldHeight_def case_prod_beta)

section \<open>Materializing avatar frames (C8)\<close>

lemma preload_slot_again:
  "preload_slot (fst (preload_slot slot n)) m = (fst (preload_slot slot n), m)"
  by (cases slot) auto

lemma preload_frameArray_again:
  "preload_frameArray (fst (preload_frameArray arr n)) m = (fst (preload_frameArray arr n), m)"
proof (induction arr arbitrary: n m)
  case Nil
  then show ?case by simp
next
  case (Cons slot rest)
  obtain slot' n' where a: "preload_slot slot n = (slot', n')" by (cases "preload_slot slot n")
  obtain rest' n'' where b: "preload_frameArray rest n' = (rest', n'')"
    by (cases "preload_frameArray rest n'")
  have "preload_slot slot' m = (slot', m)"
    using preload_slot_again [of slot n m] a by simp
  moreover have "preload_frameArray rest' m = (rest', m)"
    using Cons.IH [of n' m] b by simp
  ultimately show ?case using a b by simp
qed

lemma preload_frames_again:
  "preload_frames (fst (preload_frames fs n)) m = (fst (preload_frames fs n), m)"
proof (induction fs arbitrary: n m)
  case Nil
  then show ?case by simp
next
  case (Cons entry rest)
  obtain dir arr where e: "entry = (dir, arr)" by (cases entry)
  obtain arr' n' where a: "preload_frameArray arr n = (arr', n')"
    by (cases "preload_frameArray arr n")
  obtain rest' n'' where b: "preload_frames rest n' = (rest', n'')"
    by (cases "preload_frames rest n'")
  have "preload_frameArray arr' m = (arr', m)"
    using preload_frameArray_again [of arr n m] a by simp
  moreover have "preload_frames rest' m = (rest', m)"
    using Cons.IH [of n' m] b by simp
  ultimately show ?case using e a b by simp
qed

lemma preload_avatars_again:
  "preload_avatars (fst (preload_avatars avs n)) m = (fst (preload_avatars avs n), m)"
proof (induction avs arbitrary: n m)
  case Nil
  then show ?case by simp
next
  case (Cons entry rest)
  obtain name av where e: "entry = (name, av)" by (cases entry)
  obtain fs' n' where a: "preload_frames (av_frames av) n = (fs', n')"
    by (cases "preload_frames (av_frames av) n")
  obtain rest' n'' where b: "preload_avatars rest n' = (rest', n'')"
    by (cases "preload_avatars rest n'")
  have "preload_frames fs' m = (fs', m)"
    using preload_frames_again [of "av_frames av" n m] a by simp
  moreover have "preload_avatars rest' m = (rest', m)"
    using Cons.IH [of n' m] b by simp
  ultimately show ?case using e a b by simp
qed

lemma preloadAvatarImages_again:
  "preloadAvatarImages (preloadAvatarImages s) = preloadAvatarImages s"
proof -
  obtain avs' n' where a: "preload_avatars (avatars s) (imagesCreated s) = (avs', n')"
    by (cases "preload_avatars (avatars s) (imagesCreated s)")
  have "preload_avatars avs' n' = (avs', n')"
    using preload_avatars_again [of "avatars s" "imagesCreated s" n'] a by simp
  then show ?thesis using a by (simp add: preloadAvatarImages_def)
qed

lemma materialized_slot: "materialized slot (fst (preload_slot slot n))"
  by (cases slot) auto

lemma materialized_frameArray: "list_all2 materialized arr (fst (preload_frameArray arr n))"
proof (induction arr arbitrary: n)
  case Nil
  then show ?case by simp
next
  case (Cons slot rest)
  show ?case
    using materialized_slot [of slot n] Cons.IH [of "snd (preload_slot slot n)"]
    by (simp add: case_prod_beta)
qed

lemma materialized_frames:
  "list_all2 materialized (concat (map snd fs)) (concat (map snd (fst (preload_frames fs n))))"
proof (induction fs arbitrary: n)
  case Nil
  then show ?case by simp
next
  case (Cons entry rest)
  obtain dir arr where e: "entry = (dir, arr)" by (cases entry)
  show ?case
    using materialized_frameArray [of arr n] Cons.IH [of "snd (preload_frameArray arr n)"] e
    by (simp add: case_prod_beta list_all2_appendI)
qed

lemma materialized_avatars:
  "list_all2 materialized (frame_slots avs) (frame_slots (fst (preload_avatars avs n)))"
proof (induction avs arbitrary: n)
  case Nil
  then show ?case by (simp add: frame_slots_def)
next
  case (Cons entry rest)
  obtain name av where e: "entry = (name, av)" by (cases entry)
  show ?case
    using materialized_frames [of "av_frames av" n]
      Cons.IH [of "snd (preload_frames (av_frames av) n)"] e
    by (simp add: case_prod_beta list_all2_appendI frame_slots_def)
qed

text \<open>
  Claim C8. \<^verbatim>\<open>preloadAvatarImages\<close> is idempotent: a second call returns the state of the
  first, so every slot holds the same image object and no further image is created.
  The first call turns every slot that holds a \<^verbatim>\<open>data:\<close> string into an image whose
  source is that string and leaves every other slot as it is; the test on the slot's
  content (a string that starts with \<^verbatim>\<open>data:\<close>) is what an image fails the second time.
\<close>

theorem preload_idempotent:
  "preloadAvatarImages (preloadAvatarImages s) = preloadAvatarImages s
   \<and> list_all2 materialized (frame_slots (avatars s)) (frame_slots (avatars (preloadAvatarImages s)))"
  using materialized_avatars [of "avatars s" "imagesCreated s"]
  by (simp add: preloadAvatarImages_again) (simp add: preloadAvatarImages_def case_prod_beta)

text \<open>
  Three undecoded frames become the images 0, 1 and 2; a second call changes nothing.
\<close>

theorem preload_idempotent_witness:
  "frame_slots (avatars example_undecoded)
     = [FrameString ''data:image/png;base64,AAAA'', FrameString ''data:image/png;base64,BBBB'',
        FrameString ''data:image/png;base64,CCCC'']
 \<and> frame_slots (avatars (preloadAvatarImages example_undecoded))
     = [FrameImage \<lparr> img_handle = 0, img_src = ''data:image/png;base64,AAAA'' \<rparr>,
        FrameImage \<lparr> img_handle = 1, img_src = ''data:image/png;base64,BBBB'' \<rparr>,
        FrameImage \<lparr> img_handle = 2, img_src = ''data:image/png;base64,CCCC'' \<rparr>]
 \<and> imagesCreated (preloadAvatarImages example_undecoded) = 3
 \<and> preloadAvatarImages (preloadAvatarImages example_undecoded)
     = preloadAvatarImages example_undecoded"
proof -
  have a: "frame_slots (avatars example_undecoded)
     = [FrameString ''data:image/png;base64,AAAA'', FrameString ''data:image/png;base64,BBBB'',
        FrameString ''data:image/png;base64,CCCC'']"
    by (simp add: example_undecoded_def example_avatars_def frame_slots_def)
  have b: "frame_slots (avatars (preloadAvatarImages example_undecoded))
     = [FrameImage \<lparr> img_handle = 0, img_src = ''data:image/png;base64,AAAA'' \<rparr>,
        FrameImage \<lparr> img_handle = 1, img_src = ''data:image/png;base64,BBBB'' \<rparr>,
        FrameImage \<lparr> img_handle = 2, img_src = ''data:image/png;base64,CCCC'' \<rparr>]"
    "imagesCreated (preloadAvatarImages example_undecoded) = 3"
    by (simp_all add: example_undecoded_def example_avatars_def init_state_def frame_slots_def
          preloadAvatarImages_def is_data_uri_def)
  show ?thesis
    using preload_idempotent [of example_undecoded] a b by simp
qed

section \<open>A refused join (C9)\<close>

text \<open>
  Claim C9. A \<^verbatim>\<open>join_game\<close> message with \<^verbatim>\<open>success\<close> false writes the error to the console
  and changes nothing else: the player map, the avatar map and the local player id are
  as before. With \<^verbatim>\<open>success\<close> true the local id is the message's \<^verbatim>\<open>playerId\<close>, the player
  map is the message's, and the avatar map is the message's with its frames
  materialized.
\<close>

theorem join_failure_keeps_store:
  "handleServerMessage now (JoinGame False playerId ps avs err) s
     = s\<lparr> console := console s @ [LogJoinFailed err] \<rparr>
   \<and> myPlayerId (handleServerMessage now (JoinGame True playerId ps avs err) s) = playerId
   \<and> players (handleServerMessage now (JoinGame True playerId ps avs err) s) = ps
   \<and> avatars (handleServerMessage now (JoinGame True playerId ps avs err) s)
       = fst (preload_avatars avs (imagesCreated s))"
  by (simp add: Let_def preloadAvatarImages_def centerViewportOnMyAvatar_def
        split: prod.splits option.splits)

text \<open>
  A refusal that reaches the connected client, whose store is still empty, leaves it
  empty; the snapshot of a successful join fills it.
\<close>

theorem join_failure_keeps_store_witness:
  "myPlayerId (handleServerMessage 900 (JoinGame False None [] [] ''server full'') example_connected) = None
 \<and> players (handleServerMessage 900 (JoinGame False None [] [] ''server full'') example_connected) = []
 \<and> avatars (handleServerMessage 900 (JoinGame False None [] [] ''server full'') example_connected) = []
 \<and> console (handleServerMessage 900 (JoinGame False None [] [] ''server full'') example_connected)
      = [LogConnected, LogJoinFailed ''server full'']
 \<and> myPlayerId example_joined = Some ''p1''
 \<and> map fst (players example_joined) = [''p1'', ''p2'', ''p3'']"
  using join_failure_keeps_store [of 900 None "[]" "[]" "''server full''" example_connected]
  by (simp add: example_connected_eq init_state_def example_joined_eq)

end
